theory Spec2Isabelle
  imports Main
begin

section \<open>JavaScript strings\<close>

text \<open>
  A JavaScript string is modelled as a \<^typ>\<open>string\<close>, one \<^typ>\<open>char\<close> per code unit
  (code units below 256). The helpers below are the \<open>String.prototype\<close> methods the
  application calls, with the clamping the language defines.
\<close>

definition startsWith :: "string \<Rightarrow> string \<Rightarrow> bool" where
  "startsWith s p = (take (length p) s = p)"

definition endsWith :: "string \<Rightarrow> string \<Rightarrow> bool" where
  "endsWith s p = (length p \<le> length s \<and> drop (length s - length p) s = p)"

text \<open>\<open>s.substring(a, b)\<close>: both indices are clamped to the length and swapped when \<open>a > b\<close>.\<close>

definition substring :: "string \<Rightarrow> nat \<Rightarrow> nat \<Rightarrow> string" where
  "substring s a b =
     (let a' = min a (length s); b' = min b (length s);
          lo = min a' b'; hi = max a' b'
      in take (hi - lo) (drop lo s))"

text \<open>\<open>s.substring(a)\<close>: from \<open>a\<close> to the end.\<close>

definition substringFrom :: "string \<Rightarrow> nat \<Rightarrow> string" where
  "substringFrom s a = substring s a (length s)"

text \<open>\<open>s.includes(t)\<close>.\<close>

fun includes_str :: "string \<Rightarrow> string \<Rightarrow> bool" where
  "includes_str [] t = (t = [])"
| "includes_str (c # cs) t = (startsWith (c # cs) t \<or> includes_str cs t)"

text \<open>\<open>s.toLowerCase()\<close> on code units below 256 (ASCII and Latin-1 capitals).\<close>

definition lowerChar :: "char \<Rightarrow> char" where
  "lowerChar c =
     (let n = (of_char c :: nat)
      in if (65 \<le> n \<and> n \<le> 90) \<or> (192 \<le> n \<and> n \<le> 222 \<and> n \<noteq> 215)
         then char_of (n + 32) else c)"

definition toLowerCase :: "string \<Rightarrow> string" where
  "toLowerCase s = map lowerChar s"

text \<open>White space as \<open>trim\<close> sees it: TAB, LF, VT, FF, CR, SPACE, NBSP.\<close>

definition isWhiteSpace :: "char \<Rightarrow> bool" where
  "isWhiteSpace c = ((of_char c :: nat) \<in> {9, 10, 11, 12, 13, 32, 160})"

definition trim :: "string \<Rightarrow> string" where
  "trim s = rev (dropWhile isWhiteSpace (rev (dropWhile isWhiteSpace s)))"

text \<open>\<open>s.split(sep)\<close> for a one-character separator; the empty string gives \<open>[""]\<close>.\<close>

fun split :: "char \<Rightarrow> string \<Rightarrow> string list" where
  "split sep [] = [[]]"
| "split sep (c # cs) =
     (if c = sep then [] # split sep cs
      else (case split sep cs of [] \<Rightarrow> [[c]] | w # ws \<Rightarrow> (c # w) # ws))"

section \<open>Cursor-aware insertion (\<open>insertText\<close> in App.tsx)\<close>

text \<open>
  The text area of the editor: its value and its selection. The DOM keeps
  \<open>selectionStart \<le> selectionEnd \<le> value.length\<close>.
\<close>

record textarea =
  ta_value :: string
  selectionStart :: nat
  selectionEnd :: nat

definition textarea_ok :: "textarea \<Rightarrow> bool" where
  "textarea_ok ta =
     (selectionStart ta \<le> selectionEnd ta \<and> selectionEnd ta \<le> length (ta_value ta))"

text \<open>
  What \<open>insertText\<close> produces: the text handed to \<open>setGeneratedContent\<close> and the range
  handed to \<open>setSelectionRange\<close> in the deferred callback.
\<close>

record insertion =
  newText :: string
  newSelectionStart :: nat
  newSelectionEnd :: nat

text \<open>\<open>textareaRef.current\<close> may be null: then \<open>insertText\<close> returns without any effect.\<close>

definition insertText :: "textarea option \<Rightarrow> string \<Rightarrow> string \<Rightarrow> insertion option" where
  "insertText textareaRef before' after' =
     (case textareaRef of
        None \<Rightarrow> None
      | Some textarea \<Rightarrow>
          (let start = selectionStart textarea;
               end' = selectionEnd textarea;
               text = ta_value textarea
           in Some \<lparr> newText = substring text 0 start @ before' @ substring text start end'
                                 @ after' @ substringFrom text end',
                     newSelectionStart = start + length before',
                     newSelectionEnd = end' + length before' \<rparr>))"

section \<open>Retry with backoff (\<open>retryWithBackoff\<close> in services/geminiService.ts)\<close>

text \<open>
  What a rejected call throws, as far as \<open>retryWithBackoff\<close> looks at it: the fields
  \<open>status\<close>, \<open>code\<close> and \<open>message\<close>, each possibly absent (a \<open>message\<close> that is not a
  string counts as absent).
\<close>

record api_error =
  err_status :: "int option"
  err_code :: "int option"
  err_message :: "string option"

definition isOverloaded :: "api_error \<Rightarrow> bool" where
  "isOverloaded error =
     (err_status error = Some 503 \<or> err_code error = Some 503 \<or>
      (case err_message error of
         None \<Rightarrow> False
       | Some m \<Rightarrow> m \<noteq> [] \<and> (includes_str m ''503'' \<or> includes_str (toLowerCase m) ''overloaded'')))"

text \<open>
  The operation is called again on every attempt; its \<open>k\<close>-th call (from 0) ends as
  \<open>operation k\<close>: \<open>Inl\<close> the error thrown or \<open>Inr\<close> the value.
  A run of \<open>retryWithBackoff\<close> is its outcome, the delays it waited (in ms, in order)
  and the number of calls made so far; \<open>n\<close> is the number of calls made before.
\<close>

record 'a retry_run =
  outcome :: "api_error + 'a"
  waited :: "nat list"
  calls :: nat

fun retryWithBackoff :: "(nat \<Rightarrow> api_error + 'a) \<Rightarrow> nat \<Rightarrow> nat \<Rightarrow> nat \<Rightarrow> 'a retry_run" where
  "retryWithBackoff operation n retries delay =
     (case operation n of
        Inr v \<Rightarrow> \<lparr> outcome = Inr v, waited = [], calls = Suc n \<rparr>
      | Inl error \<Rightarrow>
          (if retries > 0 \<and> isOverloaded error
           then (let r = retryWithBackoff operation (Suc n) (retries - 1) (delay * 2)
                 in r \<lparr> waited := delay # waited r \<rparr>)
           else \<lparr> outcome = Inl error, waited = [], calls = Suc n \<rparr>))"

text \<open>The default arguments, used by every call site: 3 retries, 1000 ms.\<close>

definition retryWithBackoff_default :: "(nat \<Rightarrow> api_error + 'a) \<Rightarrow> 'a retry_run" where
  "retryWithBackoff_default operation = retryWithBackoff operation 0 3 1000"

section \<open>Image generation (\<open>generateImage\<close> in services/geminiService.ts)\<close>

text \<open>
  A response of the generation service, as far as the code reads it: the parts of the first
  candidate (\<open>response.candidates?.[0]?.content?.parts || []\<close>), each with the data of its
  \<open>inlineData\<close> when it has one.
\<close>

record part =
  inlineData :: "string option"

type_synonym response = "part list"

text \<open>The loop over the parts, shared by \<open>generateSingle\<close> and \<open>editGeneratedImage\<close>.\<close>

fun firstInlineData :: "response \<Rightarrow> string option" where
  "firstInlineData [] = None"
| "firstInlineData (p # ps) =
     (case inlineData p of
        Some base64EncodeString \<Rightarrow> Some (''data:image/png;base64,'' @ base64EncodeString)
      | None \<Rightarrow> firstInlineData ps)"






text \<open>
  \<open>editGeneratedImage\<close>: one request through \<open>retryWithBackoff\<close>; an error is logged and
  thrown again.
\<close>

definition editGeneratedImage :: "(nat \<Rightarrow> api_error + response) \<Rightarrow> api_error + string option" where
  "editGeneratedImage operation =
     (case outcome (retryWithBackoff_default operation) of
        Inl error \<Rightarrow> Inl error
      | Inr response \<Rightarrow> Inr (firstInlineData response))"

section \<open>Application state (App.tsx)\<close>

text \<open>
  The part of the React state that the handlers below share: the text, the images, the
  selection and the flags around them. \<open>topic\<close> is \<open>config.topic\<close>. The handlers also
  reset state that nothing below reads (the view, the originality report, the focus
  keyword, the edit mode) and raise alerts; these are left out.
\<close>

record app_state =
  topic :: string
  generatedContent :: string
  generatedImageUrls :: "string list"
  selectedImageIndex :: int
  imageEditPrompt :: string
  showImageMaskEditor :: bool
  isEditingImage :: bool
  isGenerating :: bool
  isGeneratingImage :: bool
  imageGenerationError :: "string option"

text \<open>
  \<open>(generatedImageUrls && generatedImageUrls[selectedImageIndex]) || null\<close>: an index
  outside the array reads \<open>undefined\<close>, and the empty string is falsy as well.
\<close>

definition currentImageUrl :: "app_state \<Rightarrow> string option" where
  "currentImageUrl st =
     (let i = selectedImageIndex st; imgs = generatedImageUrls st
      in if 0 \<le> i \<and> i < int (length imgs) \<and> imgs ! nat i \<noteq> []
         then Some (imgs ! nat i) else None)"

text \<open>The state setter of React: it stores what it is given.\<close>

definition setSelectedImageIndex :: "int \<Rightarrow> app_state \<Rightarrow> app_state" where
  "setSelectedImageIndex idx st = st \<lparr> selectedImageIndex := idx \<rparr>"

text \<open>
  The thumbnail gallery: rendered when there is a current image and more than one image,
  one button per position; the button at \<open>idx\<close> calls \<open>setSelectedImageIndex(idx)\<close>.
\<close>

definition thumbnailGallery :: "app_state \<Rightarrow> int list" where
  "thumbnailGallery st =
     (if currentImageUrl st \<noteq> None \<and> length (generatedImageUrls st) > 1
      then map int [0 ..< length (generatedImageUrls st)] else [])"

definition thumbnail_onClick :: "int \<Rightarrow> app_state \<Rightarrow> app_state" where
  "thumbnail_onClick idx st = setSelectedImageIndex idx st"

text \<open>
  \<open>handleGenerateImage\<close> (regenerate all); \<open>result\<close> is what \<open>generateCoverImage\<close>
  resolved to.
\<close>

definition handleGenerateImage :: "string list \<Rightarrow> app_state \<Rightarrow> app_state" where
  "handleGenerateImage result st =
     (if topic st = [] then st
      else
        (let st1 = st \<lparr> isGeneratingImage := True, imageGenerationError := None,
                        generatedImageUrls := [], selectedImageIndex := 0 \<rparr>;
             st2 = (if length result = 0
                    then st1 \<lparr> imageGenerationError :=
                                 Some ''Failed to generate images. Please try again.'' \<rparr>
                    else st1 \<lparr> generatedImageUrls := result \<rparr>)
         in st2 \<lparr> isGeneratingImage := False \<rparr>))"

text \<open>
  \<open>handleEditImage\<close>: under its guard \<open>currentImageUrl\<close> is not null, so the assignment
  \<open>newUrls[selectedImageIndex] = newUrl\<close> writes inside the copy of the array. A null
  result and a thrown error only raise an alert.
\<close>

definition handleEditImage :: "(nat \<Rightarrow> api_error + response) \<Rightarrow> app_state \<Rightarrow> app_state" where
  "handleEditImage operation st =
     (if currentImageUrl st = None \<or> imageEditPrompt st = [] then st
      else
        (let st1 = st \<lparr> showImageMaskEditor := False, isEditingImage := True \<rparr>;
             st2 = (case editGeneratedImage operation of
                      Inr (Some newUrl) \<Rightarrow>
                        (if newUrl \<noteq> []
                         then st1 \<lparr> generatedImageUrls :=
                                      (generatedImageUrls st) [nat (selectedImageIndex st) := newUrl] \<rparr>
                         else st1)
                    | Inr None \<Rightarrow> st1
                    | Inl error \<Rightarrow> st1)
         in st2 \<lparr> isEditingImage := False \<rparr>))"

text \<open>
  Opening a saved article (the \<open>onClick\<close> of a recent-article card and of
  ``Open Article'' in the history).
\<close>

record saved_article =
  article_topic :: string
  article_content :: string
  article_imageUrl :: "string option"

definition openArticle :: "saved_article \<Rightarrow> app_state \<Rightarrow> app_state" where
  "openArticle article st =
     st \<lparr> generatedContent := article_content article,
          generatedImageUrls :=
            (case article_imageUrl article of
               Some u \<Rightarrow> (if u \<noteq> [] then [u] else [])
             | None \<Rightarrow> []),
          topic := article_topic article \<rparr>"

section \<open>Streaming (\<open>streamArticleGeneration\<close> and \<open>handleGenerate\<close>)\<close>

text \<open>
  One run of the text stream: the chunks it delivers, each with the reading of
  \<open>Date.now()\<close> at its delivery, and the error that ends it, if any (with no chunk
  delivered when the request itself fails).
\<close>

record stream_run =
  chunks :: "(string \<times> int) list"
  failure :: "api_error option"

text \<open>\<open>streamArticleGeneration\<close> hands every chunk with a non-empty text to \<open>onChunk\<close>.\<close>

fun deliver :: "(string \<Rightarrow> int \<Rightarrow> 's \<Rightarrow> 's) \<Rightarrow> (string \<times> int) list \<Rightarrow> 's \<Rightarrow> 's" where
  "deliver onChunk [] s = s"
| "deliver onChunk ((text, now) # rest) s =
     deliver onChunk rest (if text \<noteq> [] then onChunk text now s else s)"

definition streamArticleGeneration ::
  "stream_run \<Rightarrow> (string \<Rightarrow> int \<Rightarrow> 's \<Rightarrow> 's) \<Rightarrow> 's \<Rightarrow> api_error option \<times> 's" where
  "streamArticleGeneration run onChunk s = (failure run, deliver onChunk (chunks run) s)"

text \<open>The local variables of \<open>handleGenerate\<close> that its callback updates.\<close>

record stream_buffer =
  contentBuffer :: string
  lastUpdateTime :: int

definition RENDER_THROTTLE_MS :: int where
  "RENDER_THROTTLE_MS = 32"

definition onChunk :: "string \<Rightarrow> int \<Rightarrow> stream_buffer \<times> app_state \<Rightarrow> stream_buffer \<times> app_state" where
  "onChunk chunk now s =
     (let buf = (fst s) \<lparr> contentBuffer := contentBuffer (fst s) @ chunk \<rparr>
      in if now - lastUpdateTime buf > RENDER_THROTTLE_MS
         then (buf \<lparr> lastUpdateTime := now \<rparr>, (snd s) \<lparr> generatedContent := contentBuffer buf \<rparr>)
         else (buf, snd s))"

text \<open>
  The cover image of \<open>handleGenerate\<close>: \<open>cover\<close> is \<open>None\<close> when \<open>config.generateImage\<close>
  is off, and otherwise what \<open>generateCoverImage\<close> resolved to. Its callback writes only
  the image fields, so it is applied after the text.
\<close>

definition coverImageThen :: "string list option \<Rightarrow> app_state \<Rightarrow> app_state" where
  "coverImageThen cover st =
     (case cover of
        None \<Rightarrow> st
      | Some result \<Rightarrow>
          (if length result = 0
           then st \<lparr> imageGenerationError := Some ''Could not generate image'',
                     isGeneratingImage := False \<rparr>
           else st \<lparr> generatedImageUrls := result, isGeneratingImage := False \<rparr>))"

text \<open>
  \<open>handleGenerate\<close>: the final \<open>setGeneratedContent(contentBuffer)\<close> is inside the
  \<open>try\<close>, after the \<open>await\<close>; when the stream throws, the \<open>catch\<close> only logs.
\<close>

definition handleGenerate :: "stream_run \<Rightarrow> string list option \<Rightarrow> app_state \<Rightarrow> app_state" where
  "handleGenerate run cover st =
     (if topic st = [] then st
      else
        (let st0 = st \<lparr> isGenerating := True, generatedContent := [],
                        generatedImageUrls := [], selectedImageIndex := 0 \<rparr>;
             (thrown, s) = streamArticleGeneration run onChunk
                             (\<lparr> contentBuffer = [], lastUpdateTime = 0 \<rparr>, st0);
             st1 = (case thrown of
                      None \<Rightarrow> (snd s) \<lparr> generatedContent := contentBuffer (fst s) \<rparr>
                    | Some error \<Rightarrow> snd s);
             st2 = coverImageThen cover st1
         in st2 \<lparr> isGenerating := False \<rparr>))"

section \<open>The two regular expressions\<close>

text \<open>In a JavaScript regular expression \<open>.\<close> matches any code unit but a line terminator.\<close>

definition isLineTerminator :: "char \<Rightarrow> bool" where
  "isLineTerminator c = ((of_char c :: nat) \<in> {10, 13})"

text \<open>
  \<open>lazyThen lit k s\<close> matches \<open>.*?\<close> followed by the literal \<open>lit\<close> and then by what \<open>k\<close>
  accepts, at the start of \<open>s\<close>: the lazy quantifier takes the shortest run of
  characters that lets the rest match. The result is the run and the result of \<open>k\<close>.
\<close>

fun lazyThen :: "string \<Rightarrow> (string \<Rightarrow> 'a option) \<Rightarrow> string \<Rightarrow> (string \<times> 'a) option" where
  "lazyThen lit k [] = (if lit = [] then map_option (Pair []) (k []) else None)"
| "lazyThen lit k (c # cs) =
     (case (if startsWith (c # cs) lit then k (drop (length lit) (c # cs)) else None) of
        Some r \<Rightarrow> Some ([], r)
      | None \<Rightarrow>
          (if isLineTerminator c then None
           else map_option (\<lambda>(run, r). (c # run, r)) (lazyThen lit k cs)))"

text \<open>
  \<open>/\*\*.*?\*\*/\<close> at the start of \<open>s\<close>: the text between the markers, when it matches.
  The match is then \<open>length inner + 4\<close> characters long.
\<close>

definition matchBoldAt :: "string \<Rightarrow> string option" where
  "matchBoldAt s =
     (if startsWith s ''**'' then map_option fst (lazyThen ''**'' Some (drop 2 s)) else None)"

text \<open>
  \<open>s.split(/(\*\*.*?\*\*)/g)\<close>: the pieces between the matches and, because of the
  capturing group, the matches themselves; \<open>seg\<close> is the piece being collected.
\<close>

fun splitBold :: "string \<Rightarrow> string \<Rightarrow> string list" where
  "splitBold seg [] = [seg]"
| "splitBold seg (c # cs) =
     (case matchBoldAt (c # cs) of
        Some inner \<Rightarrow>
          seg # (''**'' @ inner @ ''**'') # splitBold [] (drop (length inner + 4) (c # cs))
      | None \<Rightarrow> splitBold (seg @ [c]) cs)"

text \<open>\<open>s.replace(/\*\*(.*?)\*\*/g, '<strong>$1</strong>')\<close>.\<close>

fun replaceBold :: "string \<Rightarrow> string" where
  "replaceBold [] = []"
| "replaceBold (c # cs) =
     (case matchBoldAt (c # cs) of
        Some inner \<Rightarrow>
          ''<strong>'' @ inner @ ''</strong>'' @ replaceBold (drop (length inner + 4) (c # cs))
      | None \<Rightarrow> c # replaceBold cs)"

text \<open>
  \<open>s.match(/!\[(.*?)\]\((.*?)\)/)\<close>: the leftmost match, as the pair of its two groups
  \<open>(match[1], match[2])\<close>.
\<close>

fun matchImage :: "string \<Rightarrow> (string \<times> string) option" where
  "matchImage [] = None"
| "matchImage (c # cs) =
     (case (if startsWith (c # cs) ''![''
            then lazyThen '']('' (\<lambda>r. map_option fst (lazyThen '')'' Some r)) (drop 2 (c # cs))
            else None) of
        Some m \<Rightarrow> Some m
      | None \<Rightarrow> matchImage cs)"

section \<open>The preview renderer (\<open>MarkdownView\<close>)\<close>

text \<open>
  The React nodes \<open>MarkdownView\<close> builds, without their styling: the children of a
  paragraph or list item are strings and \<open>strong\<close> elements.
\<close>

datatype inline = Plain string | Strong string

datatype block =
    Heading nat string
  | Paragraph "inline list"
  | UList "inline list list"
  | Table "string list" "string list list"
  | Image string string

text \<open>\<open>part.slice(2, -2)\<close> on a part that starts with \<open>**\<close>.\<close>

definition slice2 :: "string \<Rightarrow> string" where
  "slice2 p = take (length p - 4) (drop 2 p)"

definition renderedParts :: "string \<Rightarrow> inline list" where
  "renderedParts s =
     map (\<lambda>p. if startsWith p ''**'' \<and> endsWith p ''**'' then Strong (slice2 p) else Plain p)
         (splitBold [] s)"

definition parseRow :: "string \<Rightarrow> string list" where
  "parseRow row = filter (\<lambda>c. c \<noteq> []) (map trim (split CHR ''|'' row))"

text \<open>\<open>renderTable\<close>: \<open>null\<close> for fewer than two rows; a body row without cells is \<open>null\<close>.\<close>

definition renderTable :: "string list \<Rightarrow> block option" where
  "renderTable rows =
     (if length rows < 2 then None
      else
        (let headerRow = rows ! 0;
             bodyRows = drop 2 rows;
             headers = parseRow headerRow
         in Some (Table headers (filter (\<lambda>cells. length cells \<noteq> 0) (map parseRow bodyRows)))))"

record md_state =
  elements :: "block list"
  listBuffer :: "inline list list"
  tableBuffer :: "string list"
  inList :: bool
  inTable :: bool

definition flushList :: "md_state \<Rightarrow> md_state" where
  "flushList st =
     (if length (listBuffer st) > 0
      then st \<lparr> elements := elements st @ [UList (listBuffer st)], listBuffer := [], inList := False \<rparr>
      else st)"

definition flushTable :: "md_state \<Rightarrow> md_state" where
  "flushTable st =
     (if length (tableBuffer st) > 0
      then (let st1 = (case renderTable (tableBuffer st) of
                         Some tableNode \<Rightarrow> st \<lparr> elements := elements st @ [tableNode] \<rparr>
                       | None \<Rightarrow> st)
            in st1 \<lparr> tableBuffer := [], inTable := False \<rparr>)
      else st)"

definition push :: "block \<Rightarrow> md_state \<Rightarrow> md_state" where
  "push b st = st \<lparr> elements := elements st @ [b] \<rparr>"

text \<open>The body of \<open>lines.forEach\<close>, from the list item on.\<close>

definition listOrParagraph :: "string \<Rightarrow> md_state \<Rightarrow> md_state" where
  "listOrParagraph line st =
     (let trimLine = trim line
      in if startsWith trimLine ''- '' \<or> startsWith trimLine ''* ''
         then st \<lparr> inList := True,
                   listBuffer := listBuffer st @ [renderedParts (drop 2 trimLine)] \<rparr>
         else
           (let st1 = (if inList st then flushList st else st)
            in if trimLine \<noteq> []
               then push (Paragraph (renderedParts line)) (flushList st1)
               else st1))"

text \<open>The headings are tested on the line itself, not on its trimmed form.\<close>

definition headings :: "string \<Rightarrow> md_state \<Rightarrow> md_state" where
  "headings line st =
     (if startsWith line ''# '' then push (Heading 1 (drop 2 line)) (flushList st)
      else if startsWith line ''## '' then push (Heading 2 (drop 3 line)) (flushList st)
      else if startsWith line ''### '' then push (Heading 3 (drop 4 line)) (flushList st)
      else listOrParagraph line st)"

text \<open>An image line whose pattern does not match goes on to the tests below it.\<close>

definition imageDetection :: "string \<Rightarrow> md_state \<Rightarrow> md_state" where
  "imageDetection line st =
     (let trimLine = trim line
      in if startsWith trimLine ''![''
         then (let st1 = flushList st
               in case matchImage trimLine of
                    Some (alt, src) \<Rightarrow> push (Image src alt) st1
                  | None \<Rightarrow> headings line st1)
         else headings line st)"

definition processLine :: "md_state \<Rightarrow> string \<Rightarrow> md_state" where
  "processLine st line =
     (let trimLine = trim line
      in if startsWith trimLine ''|''
         then (flushList st) \<lparr> inTable := True,
                               tableBuffer := tableBuffer (flushList st) @ [trimLine] \<rparr>
         else imageDetection line (if inTable st then flushTable st else st))"

definition initial :: md_state where
  "initial = \<lparr> elements = [], listBuffer = [], tableBuffer = [], inList = False, inTable = False \<rparr>"

text \<open>The blocks of a list of lines: the loop and the two flushes after it.\<close>

definition renderLines :: "string list \<Rightarrow> block list" where
  "renderLines lines = elements (flushTable (flushList (foldl processLine initial lines)))"

text \<open>\<open>MarkdownView\<close>: \<open>null\<close> for an empty content, and otherwise the blocks in a \<open>div\<close>.\<close>

definition MarkdownView :: "string \<Rightarrow> block list option" where
  "MarkdownView content =
     (if content = [] then None else Some (renderLines (split CHR 0x0A content)))"

section \<open>The HTML export (\<open>generateHtmlContent\<close>)\<close>

record html_state =
  html :: string
  inListH :: bool
  inTableH :: bool
  tableBufferH :: "string list"

definition emit :: "string \<Rightarrow> html_state \<Rightarrow> html_state" where
  "emit s st = st \<lparr> html := html st @ s \<rparr>"

definition flushListH :: "html_state \<Rightarrow> html_state" where
  "flushListH st = (if inListH st then (emit ''</ul>'' st) \<lparr> inListH := False \<rparr> else st)"

definition tableRowH :: "string \<Rightarrow> string" where
  "tableRowH row =
     (let cells = filter (\<lambda>c. c \<noteq> []) (map trim (split CHR ''|'' row))
      in if length cells > 0
         then ''<tr>'' @ concat (map (\<lambda>c. ''<td>'' @ c @ ''</td>'') cells) @ ''</tr>''
         else [])"

definition flushTableH :: "html_state \<Rightarrow> html_state" where
  "flushTableH st =
     (if inTableH st \<and> length (tableBufferH st) > 0
      then
        (let rows = tableBufferH st;
             inner =
               (if length rows \<ge> 2
                then (let headerCells = filter (\<lambda>c. c \<noteq> []) (map trim (split CHR ''|'' (rows ! 0)))
                      in ''<thead><tr>'' @ concat (map (\<lambda>h. ''<th>'' @ h @ ''</th>'') headerCells)
                         @ ''</tr></thead>'' @ ''<tbody>''
                         @ concat (map tableRowH (drop 2 rows)) @ ''</tbody>'')
                else [])
         in (emit (''<table>'' @ inner @ ''</table>'') st) \<lparr> tableBufferH := [], inTableH := False \<rparr>)
      else st)"

text \<open>The \<open>if\<close>/\<open>else if\<close> chain at the end of the loop body.\<close>

definition blockH :: "string \<Rightarrow> html_state \<Rightarrow> html_state" where
  "blockH line st =
     (let trimLine = trim line
      in if startsWith line ''# '' then emit (''<h1>'' @ drop 2 line @ ''</h1>'') (flushListH st)
         else if startsWith line ''## '' then emit (''<h2>'' @ drop 3 line @ ''</h2>'') (flushListH st)
         else if startsWith line ''### '' then emit (''<h3>'' @ drop 4 line @ ''</h3>'') (flushListH st)
         else if startsWith trimLine ''- '' \<or> startsWith trimLine ''* ''
         then (let st1 = (if \<not> inListH st then (emit ''<ul>'' st) \<lparr> inListH := True \<rparr> else st)
               in emit (''<li>'' @ replaceBold (drop 2 trimLine) @ ''</li>'') st1)
         else if length trimLine > 0
         then emit (''<p>'' @ replaceBold line @ ''</p>'') (flushListH st)
         else st)"

text \<open>The image branch returns whether the pattern matched or not.\<close>

definition imageH :: "string \<Rightarrow> html_state \<Rightarrow> html_state" where
  "imageH line st =
     (let trimLine = trim line
      in if startsWith trimLine ''![''
         then (let st1 = flushListH st
               in case matchImage trimLine of
                    Some (alt, src) \<Rightarrow>
                      emit (''<img src=\"'' @ src @ ''\" alt=\"'' @ alt @ ''\" />''
                            @ (if alt \<noteq> []
                               then ''<p style=\"text-align:center; font-style:italic; font-size:0.9em; color:#666;\">''
                                    @ alt @ ''</p>''
                               else [])) st1
                  | None \<Rightarrow> st1)
         else blockH line st)"

definition processLineH :: "html_state \<Rightarrow> string \<Rightarrow> html_state" where
  "processLineH st line =
     (let trimLine = trim line
      in if startsWith trimLine ''|''
         then (flushListH st) \<lparr> inTableH := True,
                                tableBufferH := tableBufferH (flushListH st) @ [trimLine] \<rparr>
         else imageH line (if inTableH st then flushTableH st else st))"

text \<open>
  What the loop and the two flushes after it append to \<open>html\<close>: the body of the document
  after the cover image.
\<close>

definition htmlBody :: "string \<Rightarrow> string" where
  "htmlBody content =
     html (flushTableH (flushListH (foldl processLineH
        \<lparr> html = [], inListH = False, inTableH = False, tableBufferH = [] \<rparr>
        (split CHR 0x0A content))))"

text \<open>
  \<open>generateHtmlContent\<close>; \<open>head\<close> is the fixed opening of the document (doctype, title,
  inline style, \<open><body>\<close>), \<open>cover\<close> is \<open>currentImageUrl\<close>.
\<close>

definition generateHtmlContent :: "string \<Rightarrow> string option \<Rightarrow> string \<Rightarrow> string" where
  "generateHtmlContent head cover content =
     head
     @ (case cover of
          Some u \<Rightarrow> ''<img src=\"'' @ u @ ''\" alt=\"Cover Image\" />''
        | None \<Rightarrow> [])
     @ htmlBody content
     @ ''</body></html>''"

section \<open>Notions used in the properties\<close>

text \<open>An attempt that ends in an error which \<open>retryWithBackoff\<close> takes for an overload.\<close>

definition failsOverloaded :: "api_error + 'a \<Rightarrow> bool" where
  "failsOverloaded x = (case x of Inl error \<Rightarrow> isOverloaded error | Inr v \<Rightarrow> False)"

text \<open>
  The selection fits the image list: inside the list when there are images, and no
  current image when there are none.
\<close>

definition selection_valid :: "app_state \<Rightarrow> bool" where
  "selection_valid st =
     (if generatedImageUrls st = [] then currentImageUrl st = None
      else 0 \<le> selectedImageIndex st \<and> selectedImageIndex st < int (length (generatedImageUrls st)))"

text \<open>A table row, and the blocks the specification gives a run of table rows.\<close>

definition isTableRow :: "string \<Rightarrow> bool" where
  "isTableRow line = startsWith (trim line) ''|''"

definition tableBlocks :: "string list \<Rightarrow> block list" where
  "tableBlocks rs =
     (if length rs < 2 then []
      else [Table (parseRow (trim (rs ! 0)))
                  (filter (\<lambda>cells. cells \<noteq> []) (map (\<lambda>r. parseRow (trim r)) (drop 2 rs)))])"

text \<open>Blocks put in front of those a state has collected, and the two flags agreeing with
  their buffers.\<close>

definition prepend :: "block list \<Rightarrow> md_state \<Rightarrow> md_state" where
  "prepend P st = st \<lparr> elements := P @ elements st \<rparr>"

definition buffers_ok :: "md_state \<Rightarrow> bool" where
  "buffers_ok st =
     ((inList st \<longleftrightarrow> listBuffer st \<noteq> []) \<and> (inTable st \<longleftrightarrow> tableBuffer st \<noteq> []))"

text \<open>
  The throttled updates of the visible text, told from the arrival times alone: a fragment
  is shown on arrival when it is not empty and arrives more than 32 ms after the update
  before it (the first one after time 0). \<open>lastUpdate shownAt fs\<close> is the number of
  fragments of \<open>fs\<close> up to and including the last one shown on arrival, 0 when none is,
  where \<open>shownAt\<close> is the time of the update before \<open>fs\<close>.
\<close>

fun lastUpdate :: "int \<Rightarrow> (string \<times> int) list \<Rightarrow> nat" where
  "lastUpdate shownAt [] = 0"
| "lastUpdate shownAt ((fragment, now) # rest) =
     (if fragment \<noteq> [] \<and> now - shownAt > 32 then Suc (lastUpdate now rest)
      else if lastUpdate shownAt rest = 0 then 0
      else Suc (lastUpdate shownAt rest))"

subsection \<open>Concrete inputs\<close>

definition example_state :: app_state where
  "example_state = \<lparr> topic = ''cats'', generatedContent = [],
       generatedImageUrls = [''data:a'', ''data:b'', ''data:c''],
       selectedImageIndex = 2, imageEditPrompt = ''brighter'', showImageMaskEditor = False,
       isEditingImage = False, isGenerating = False, isGeneratingImage = False,
       imageGenerationError = None \<rparr>"

text \<open>Two chunks 10 ms apart, then an error.\<close>

definition interrupted_run :: stream_run where
  "interrupted_run = \<lparr> chunks = [(''Hello '', 1000), (''world'', 1010)],
       failure = Some \<lparr> err_status = Some 500, err_code = None, err_message = None \<rparr> \<rparr>"

text \<open>Four chunks, the third one 50 ms after the first, then an error.\<close>

definition late_run :: stream_run where
  "late_run = \<lparr> chunks = [(''Hello '', 1000), (''big '', 1010), (''world'', 1050), (''!'', 1060)],
       failure = Some \<lparr> err_status = Some 500, err_code = None, err_message = None \<rparr> \<rparr>"

definition busy :: api_error where
  "busy = \<lparr> err_status = None, err_code = None, err_message = Some ''The model is Overloaded'' \<rparr>"

definition bad_request :: api_error where
  "bad_request = \<lparr> err_status = Some 400, err_code = None, err_message = Some ''bad request'' \<rparr>"

text \<open>A service that answers the edit request with an image in the second part.\<close>

definition edit_ok :: "nat \<Rightarrow> api_error + response" where
  "edit_ok k = Inr [\<lparr> inlineData = None \<rparr>, \<lparr> inlineData = Some ''QUJD'' \<rparr>]"


definition facts_table :: "string list" where
  "facts_table = [''| A | B |'', ''|---|---|'', ''| 1 | 2 |'']"

section \<open>Cursor-aware insertion is a splice\<close>

lemma substring_from_zero: "substring s 0 a = take a s"
  by (simp add: substring_def Let_def min_def)

lemma substring_ordered:
  "a \<le> b \<Longrightarrow> b \<le> length s \<Longrightarrow> substring s a b = take (b - a) (drop a s)"
  by (simp add: substring_def Let_def min_def max_def)

lemma substringFrom_drop: "substringFrom s a = drop a s"
  by (simp add: substringFrom_def substring_def Let_def min_def max_def)

lemma splice_parts: "a \<le> b \<Longrightarrow> take a s @ take (b - a) (drop a s) @ drop b s = s"
  by (metis append_take_drop_id drop_drop le_add_diff_inverse2)

text \<open>
  Claim C6. For a text area whose selection lies inside its text, \<open>insertText\<close> sets the
  text to the part before the selection, then \<open>before\<close>, then the selected part, then
  \<open>after\<close>, then the part behind the selection, and asks for the selection
  \<open>[start + len(before), end + len(before)]\<close>. The three parts of the old text, put
  together again without the two insertions, are the old text: no character is dropped
  or moved.
\<close>

theorem insertText_splice:
  assumes "textarea_ok ta"
  shows "insertText (Some ta) before' after' =
           Some \<lparr> newText = take (selectionStart ta) (ta_value ta) @ before'
                     @ take (selectionEnd ta - selectionStart ta)
                         (drop (selectionStart ta) (ta_value ta))
                     @ after' @ drop (selectionEnd ta) (ta_value ta),
                  newSelectionStart = selectionStart ta + length before',
                  newSelectionEnd = selectionEnd ta + length before' \<rparr>
         \<and> take (selectionStart ta) (ta_value ta)
            @ take (selectionEnd ta - selectionStart ta) (drop (selectionStart ta) (ta_value ta))
            @ drop (selectionEnd ta) (ta_value ta) = ta_value ta"
  using assms
  by (simp add: insertText_def Let_def textarea_ok_def substring_from_zero substring_ordered
        substringFrom_drop splice_parts)

text \<open>The example of the specification: ``Hello world'', selection [0,5], \<open>**\<close> on both sides.\<close>

theorem insertText_splice_witness:
  "textarea_ok \<lparr>ta_value = ''Hello world'', selectionStart = 0, selectionEnd = 5\<rparr> \<and>
   insertText (Some \<lparr>ta_value = ''Hello world'', selectionStart = 0, selectionEnd = 5\<rparr>)
       ''**'' ''**''
     = Some \<lparr> newText = ''**Hello** world'', newSelectionStart = 2, newSelectionEnd = 7 \<rparr>"
proof -
  have ok: "textarea_ok \<lparr>ta_value = ''Hello world'', selectionStart = 0, selectionEnd = 5\<rparr>"
    by (simp add: textarea_ok_def)
  from insertText_splice [OF ok, of "''**''" "''**''"] ok show ?thesis by simp
qed

section \<open>Reading the selected image\<close>

text \<open>
  Claim C10. \<open>currentImageUrl\<close> has a value for every image list and every integer index:
  it is the entry at the index when the index is inside the list and the entry is a
  non-empty string, and null in every other case (empty list, negative index, index
  behind the end, empty entry). So what it yields is null or a non-empty member of the
  list.
\<close>

theorem currentImageUrl_total:
  "(case currentImageUrl st of
      Some u \<Rightarrow>
        0 \<le> selectedImageIndex st \<and> selectedImageIndex st < int (length (generatedImageUrls st))
        \<and> u = generatedImageUrls st ! nat (selectedImageIndex st)
        \<and> u \<noteq> [] \<and> u \<in> set (generatedImageUrls st)
    | None \<Rightarrow>
        selectedImageIndex st < 0
        \<or> int (length (generatedImageUrls st)) \<le> selectedImageIndex st
        \<or> generatedImageUrls st ! nat (selectedImageIndex st) = [])"
  by (auto simp add: currentImageUrl_def Let_def)

theorem currentImageUrl_total_witness:
  "currentImageUrl \<lparr> topic = ''t'', generatedContent = [], generatedImageUrls = [''a'', ''b''],
       selectedImageIndex = 1, imageEditPrompt = [], showImageMaskEditor = False,
       isEditingImage = False, isGenerating = False, isGeneratingImage = False,
       imageGenerationError = None \<rparr> = Some ''b'' \<and>
   currentImageUrl \<lparr> topic = ''t'', generatedContent = [], generatedImageUrls = [],
       selectedImageIndex = 0, imageEditPrompt = [], showImageMaskEditor = False,
       isEditingImage = False, isGenerating = False, isGeneratingImage = False,
       imageGenerationError = None \<rparr> = None \<and>
   currentImageUrl \<lparr> topic = ''t'', generatedContent = [], generatedImageUrls = [''a'', ''b''],
       selectedImageIndex = - 1, imageEditPrompt = [], showImageMaskEditor = False,
       isEditingImage = False, isGenerating = False, isGeneratingImage = False,
       imageGenerationError = None \<rparr> = None"
  using currentImageUrl_total [of "\<lparr> topic = ''t'', generatedContent = [],
       generatedImageUrls = [''a'', ''b''], selectedImageIndex = 1, imageEditPrompt = [],
       showImageMaskEditor = False, isEditingImage = False, isGenerating = False,
       isGeneratingImage = False, imageGenerationError = None \<rparr>"]
  by (simp add: currentImageUrl_def)

section \<open>The retry policy\<close>

lemma retry_zero:
  "retryWithBackoff operation n 0 d = \<lparr>outcome = operation n, waited = [], calls = Suc n\<rparr>"
  by (simp split: sum.splits)

lemma retry_Suc:
  "retryWithBackoff operation n (Suc r) d =
     (if failsOverloaded (operation n)
      then (retryWithBackoff operation (Suc n) r (d * 2))
             \<lparr> waited := d # waited (retryWithBackoff operation (Suc n) r (d * 2)) \<rparr>
      else \<lparr>outcome = operation n, waited = [], calls = Suc n\<rparr>)"
  by (subst retryWithBackoff.simps) (simp add: failsOverloaded_def Let_def split: sum.splits)


text \<open>
  Claim C7. With the default arguments, a call that fails with an overload error is tried
  again after 1000 ms, then after 2000 ms, then after 4000 ms: at most three retries,
  four calls. The first attempt that does not fail with an overload error ends the run
  at once, with its value or its error and with no further delay; after the third retry
  the fourth attempt ends the run whatever it gives, so an overload error there reaches
  the caller.
\<close>

theorem retryWithBackoff_policy:
  "retryWithBackoff_default operation =
   (if \<not> failsOverloaded (operation 0) then \<lparr>outcome = operation 0, waited = [], calls = 1\<rparr>
    else if \<not> failsOverloaded (operation 1) then \<lparr>outcome = operation 1, waited = [1000], calls = 2\<rparr>
    else if \<not> failsOverloaded (operation 2) then \<lparr>outcome = operation 2, waited = [1000, 2000], calls = 3\<rparr>
    else \<lparr>outcome = operation 3, waited = [1000, 2000, 4000], calls = 4\<rparr>)"
proof -
  have a3: "retryWithBackoff operation 3 0 8000 = \<lparr>outcome = operation 3, waited = [], calls = 4\<rparr>"
    by (simp add: retry_zero del: retryWithBackoff.simps)
  have a2: "retryWithBackoff operation 2 (Suc 0) 4000 =
      (if failsOverloaded (operation 2) then \<lparr>outcome = operation 3, waited = [4000], calls = 4\<rparr>
       else \<lparr>outcome = operation 2, waited = [], calls = 3\<rparr>)"
    by (simp add: retry_Suc a3 del: retryWithBackoff.simps)
  have a1: "retryWithBackoff operation 1 (Suc (Suc 0)) 2000 =
      (if failsOverloaded (operation 1)
       then (if failsOverloaded (operation 2)
             then \<lparr>outcome = operation 3, waited = [2000, 4000], calls = 4\<rparr>
             else \<lparr>outcome = operation 2, waited = [2000], calls = 3\<rparr>)
       else \<lparr>outcome = operation 1, waited = [], calls = 2\<rparr>)"
    using retry_Suc[of operation 1 "Suc 0" 2000] a2
    by (simp del: retryWithBackoff.simps One_nat_def)
  have a0: "retryWithBackoff operation 0 (Suc (Suc (Suc 0))) 1000 =
      (if failsOverloaded (operation 0)
       then (if failsOverloaded (operation 1)
             then (if failsOverloaded (operation 2)
                   then \<lparr>outcome = operation 3, waited = [1000, 2000, 4000], calls = 4\<rparr>
                   else \<lparr>outcome = operation 2, waited = [1000, 2000], calls = 3\<rparr>)
             else \<lparr>outcome = operation 1, waited = [1000], calls = 2\<rparr>)
       else \<lparr>outcome = operation 0, waited = [], calls = 1\<rparr>)"
    using retry_Suc[of operation 0 "Suc (Suc 0)" 1000] a1
    by (simp del: retryWithBackoff.simps)
  show ?thesis
    unfolding retryWithBackoff_default_def numeral_3_eq_3 a0 by simp
qed

lemma busy_overloaded: "isOverloaded busy"
  by code_simp

lemma bad_request_not_overloaded: "\<not> isOverloaded bad_request"
  by code_simp

theorem retryWithBackoff_policy_witness:
  "retryWithBackoff_default (\<lambda>k. Inl busy :: api_error + unit)
     = \<lparr>outcome = Inl busy, waited = [1000, 2000, 4000], calls = 4\<rparr> \<and>
   retryWithBackoff_default (\<lambda>k. if k = 0 then Inl busy else Inl bad_request :: api_error + unit)
     = \<lparr>outcome = Inl bad_request, waited = [1000], calls = 2\<rparr> \<and>
   retryWithBackoff_default (\<lambda>k. if k < 2 then Inl busy else Inr ())
     = \<lparr>outcome = Inr (), waited = [1000, 2000], calls = 3\<rparr>"
  using retryWithBackoff_policy [of "\<lambda>k. Inl busy :: api_error + unit"]
        retryWithBackoff_policy [of "\<lambda>k. if k = 0 then Inl busy else Inl bad_request :: api_error + unit"]
        retryWithBackoff_policy [of "\<lambda>k. if k < 2 then Inl busy else Inr ()"]
        busy_overloaded bad_request_not_overloaded
  by (simp add: failsOverloaded_def del: retryWithBackoff.simps)

section \<open>The number of image requests\<close>





section \<open>Replacing one image\<close>

lemma firstInlineData_nonempty: "firstInlineData ps = Some u \<Longrightarrow> u \<noteq> []"
  by (induction ps) (auto split: option.splits)

lemma editGeneratedImage_nonempty: "editGeneratedImage operation = Inr (Some u) \<Longrightarrow> u \<noteq> []"
  by (auto simp add: editGeneratedImage_def firstInlineData_nonempty split: sum.splits)

lemma currentImageUrl_in_range:
  "currentImageUrl st \<noteq> None \<Longrightarrow>
     0 \<le> selectedImageIndex st \<and> nat (selectedImageIndex st) < length (generatedImageUrls st)"
  by (auto simp add: currentImageUrl_def Let_def split: if_splits)

text \<open>
  Claim C8. \<open>handleEditImage\<close> leaves the selection index and the length of the image list
  as they were, and every position other than the selected one keeps its image. When the
  edit succeeds (there is a current image and a prompt, and the service returns an
  image), the list is the old one with the new image at the selected position.
\<close>

theorem handleEditImage_frame:
  "selectedImageIndex (handleEditImage operation st) = selectedImageIndex st \<and>
   length (generatedImageUrls (handleEditImage operation st)) = length (generatedImageUrls st) \<and>
   (\<forall>j < length (generatedImageUrls st). int j \<noteq> selectedImageIndex st \<longrightarrow>
       generatedImageUrls (handleEditImage operation st) ! j = generatedImageUrls st ! j) \<and>
   (\<forall>newUrl. currentImageUrl st \<noteq> None \<and> imageEditPrompt st \<noteq> [] \<and>
       editGeneratedImage operation = Inr (Some newUrl) \<longrightarrow>
         generatedImageUrls (handleEditImage operation st)
           = (generatedImageUrls st) [nat (selectedImageIndex st) := newUrl] \<and>
         generatedImageUrls (handleEditImage operation st) ! nat (selectedImageIndex st) = newUrl)"
proof -
  have sel: "selectedImageIndex (handleEditImage operation st) = selectedImageIndex st"
    by (simp add: handleEditImage_def Let_def split: sum.splits option.splits)
  have len: "length (generatedImageUrls (handleEditImage operation st)) = length (generatedImageUrls st)"
    by (simp add: handleEditImage_def Let_def split: sum.splits option.splits)
  have others: "generatedImageUrls (handleEditImage operation st) ! j = generatedImageUrls st ! j"
    if "int j \<noteq> selectedImageIndex st" for j
  proof (cases "currentImageUrl st = None")
    case True
    then show ?thesis by (simp add: handleEditImage_def)
  next
    case False
    with currentImageUrl_in_range[of st] that have "nat (selectedImageIndex st) \<noteq> j" by auto
    then show ?thesis
      by (simp add: handleEditImage_def Let_def split: sum.splits option.splits)
  qed
  have slot: "generatedImageUrls (handleEditImage operation st)
           = (generatedImageUrls st) [nat (selectedImageIndex st) := newUrl] \<and>
         generatedImageUrls (handleEditImage operation st) ! nat (selectedImageIndex st) = newUrl"
    if "currentImageUrl st \<noteq> None" "imageEditPrompt st \<noteq> []"
       "editGeneratedImage operation = Inr (Some newUrl)" for newUrl
    using that currentImageUrl_in_range[of st] editGeneratedImage_nonempty[of operation newUrl]
    by (auto simp add: handleEditImage_def Let_def)
  from sel len others slot show ?thesis by blast
qed

theorem handleEditImage_frame_witness:
  "generatedImageUrls (handleEditImage edit_ok example_state)
      = [''data:a'', ''data:b'', ''data:image/png;base64,QUJD''] \<and>
   selectedImageIndex (handleEditImage edit_ok example_state) = 2"
proof -
  have e: "editGeneratedImage edit_ok = Inr (Some ''data:image/png;base64,QUJD'')"
    by (simp add: editGeneratedImage_def retryWithBackoff_default_def edit_ok_def)
  have c: "currentImageUrl example_state \<noteq> None \<and> imageEditPrompt example_state \<noteq> []"
    by (simp add: currentImageUrl_def example_state_def)
  from handleEditImage_frame [of edit_ok example_state] e c
  show ?thesis by (simp add: example_state_def)
qed

section \<open>Selecting an image\<close>

text \<open>
  Claim C4 as stated fails: nothing checks the index. Asked for index 3 or -1 on a list of
  three images, the setter stores it, so the state changes and no error is raised.
\<close>

theorem select_out_of_range_counterexample:
  "thumbnail_onClick 3 (example_state \<lparr> selectedImageIndex := 0 \<rparr>) \<noteq> example_state \<lparr> selectedImageIndex := 0 \<rparr> \<and>
   selectedImageIndex (thumbnail_onClick 3 (example_state \<lparr> selectedImageIndex := 0 \<rparr>)) = 3 \<and>
   selectedImageIndex (thumbnail_onClick (- 1) (example_state \<lparr> selectedImageIndex := 0 \<rparr>)) = - 1"
  by (simp add: thumbnail_onClick_def setSelectedImageIndex_def example_state_def)

text \<open>
  Claim C4, amended. Selecting \<open>i\<close> and reading \<open>selectedImageIndex\<close> gives \<open>i\<close>, for every
  integer \<open>i\<close>, and the image list is untouched; for \<open>i\<close> inside the list the current
  image is then the image at \<open>i\<close>, for \<open>i\<close> outside it is null. The thumbnail gallery
  offers only indices inside the list, so no out-of-range selection comes from it.
\<close>

theorem select_stores_index:
  "selectedImageIndex (thumbnail_onClick i st) = i \<and>
   generatedImageUrls (thumbnail_onClick i st) = generatedImageUrls st \<and>
   (0 \<le> i \<and> i < int (length (generatedImageUrls st)) \<and> generatedImageUrls st ! nat i \<noteq> [] \<longrightarrow>
      currentImageUrl (thumbnail_onClick i st) = Some (generatedImageUrls st ! nat i)) \<and>
   (i < 0 \<or> int (length (generatedImageUrls st)) \<le> i \<longrightarrow>
      currentImageUrl (thumbnail_onClick i st) = None) \<and>
   (\<forall>idx \<in> set (thumbnailGallery st). 0 \<le> idx \<and> idx < int (length (generatedImageUrls st)))"
  by (auto simp add: thumbnail_onClick_def setSelectedImageIndex_def currentImageUrl_def
        thumbnailGallery_def Let_def)

theorem select_stores_index_witness:
  "selectedImageIndex (thumbnail_onClick 1 example_state) = 1 \<and>
   currentImageUrl (thumbnail_onClick 1 example_state) = Some ''data:b'' \<and>
   currentImageUrl (thumbnail_onClick 3 example_state) = None \<and>
   thumbnailGallery example_state = [0, 1, 2]"
proof -
  have g: "thumbnailGallery example_state = [0, 1, 2]"
    by (simp add: thumbnailGallery_def currentImageUrl_def example_state_def upt_rec)
  from select_stores_index [of 1 example_state] select_stores_index [of 3 example_state] g
  show ?thesis by (simp add: example_state_def)
qed

section \<open>The selection after each operation\<close>

text \<open>
  Claim C3 at a concrete input: three images with the third selected, then a saved article
  with one image is opened. \<open>openArticle\<close> replaces the image list and leaves the index at
  2, outside the new list, so the article's image is not the current image.
\<close>

theorem openArticle_keeps_stale_selection:
  "selection_valid example_state \<and>
   generatedImageUrls (openArticle \<lparr> article_topic = ''dogs'', article_content = ''# Dogs'',
        article_imageUrl = Some ''data:x'' \<rparr> example_state) = [''data:x''] \<and>
   selectedImageIndex (openArticle \<lparr> article_topic = ''dogs'', article_content = ''# Dogs'',
        article_imageUrl = Some ''data:x'' \<rparr> example_state) = 2 \<and>
   currentImageUrl (openArticle \<lparr> article_topic = ''dogs'', article_content = ''# Dogs'',
        article_imageUrl = Some ''data:x'' \<rparr> example_state) = None \<and>
   \<not> selection_valid (openArticle \<lparr> article_topic = ''dogs'', article_content = ''# Dogs'',
        article_imageUrl = Some ''data:x'' \<rparr> example_state)"
  by (simp add: selection_valid_def openArticle_def example_state_def currentImageUrl_def)

text \<open>The other operations keep the selection inside the list.\<close>

lemma selection_valid_other_operations:
  "topic st \<noteq> [] \<Longrightarrow> selection_valid (handleGenerateImage result st)"
  "selection_valid st \<Longrightarrow> selection_valid (handleEditImage operation st)"
  "idx \<in> set (thumbnailGallery st) \<Longrightarrow> selection_valid (thumbnail_onClick idx st)"
  by (auto simp add: selection_valid_def handleGenerateImage_def currentImageUrl_def Let_def
        handleEditImage_def thumbnailGallery_def thumbnail_onClick_def setSelectedImageIndex_def
        split: sum.splits option.splits if_splits)

lemma onChunk_image_fields:
  "generatedImageUrls (snd (onChunk chunk now s)) = generatedImageUrls (snd s) \<and>
   selectedImageIndex (snd (onChunk chunk now s)) = selectedImageIndex (snd s)"
  by (simp add: onChunk_def Let_def)

lemma deliver_image_fields:
  "generatedImageUrls (snd (deliver onChunk cs s)) = generatedImageUrls (snd s) \<and>
   selectedImageIndex (snd (deliver onChunk cs s)) = selectedImageIndex (snd s)"
proof (induction cs arbitrary: s)
  case Nil
  show ?case by simp
next
  case (Cons c cs)
  obtain t n where c: "c = (t, n)" by (cases c)
  show ?case by (simp add: c Cons.IH onChunk_image_fields)
qed

lemma handleGenerate_selection_valid:
  assumes "topic st \<noteq> []"
  shows "selection_valid (handleGenerate run cover st)"
proof -
  define st0 where "st0 = st \<lparr> isGenerating := True, generatedContent := [],
                        generatedImageUrls := [], selectedImageIndex := 0 \<rparr>"
  define s where "s = deliver onChunk (chunks run) (\<lparr> contentBuffer = [], lastUpdateTime = 0 \<rparr>, st0)"
  have f: "generatedImageUrls (snd s) = []" "selectedImageIndex (snd s) = 0"
    using deliver_image_fields[of "chunks run" "(\<lparr> contentBuffer = [], lastUpdateTime = 0 \<rparr>, st0)"]
    by (simp_all add: s_def st0_def)
  have "handleGenerate run cover st =
      (coverImageThen cover (case failure run of
            None \<Rightarrow> (snd s) \<lparr> generatedContent := contentBuffer (fst s) \<rparr>
          | Some error \<Rightarrow> snd s)) \<lparr> isGenerating := False \<rparr>"
    using assms
    by (simp add: handleGenerate_def streamArticleGeneration_def Let_def s_def st0_def
          split: option.splits)
  with f show ?thesis
    by (auto simp add: selection_valid_def currentImageUrl_def coverImageThen_def Let_def
          split: option.splits)
qed

section \<open>The text after a stream\<close>

lemma onChunk_appends: "contentBuffer (fst (onChunk chunk now s)) = contentBuffer (fst s) @ chunk"
  by (simp add: onChunk_def Let_def)

lemma deliver_buffer:
  "contentBuffer (fst (deliver onChunk cs s)) = contentBuffer (fst s) @ concat (map fst cs)"
proof (induction cs arbitrary: s)
  case Nil
  show ?case by simp
next
  case (Cons c cs)
  obtain t n where c: "c = (t, n)" by (cases c)
  show ?case by (simp add: c Cons.IH onChunk_appends)
qed

lemma lastUpdate_le: "lastUpdate shownAt cs \<le> length cs"
  by (induction shownAt cs rule: lastUpdate.induct) auto

lemma onChunk_shown:
  "now - lastUpdateTime (fst s) > 32 \<Longrightarrow>
     lastUpdateTime (fst (onChunk chunk now s)) = now \<and>
     generatedContent (snd (onChunk chunk now s)) = contentBuffer (fst s) @ chunk"
  by (simp add: onChunk_def Let_def RENDER_THROTTLE_MS_def)

lemma onChunk_deferred:
  "\<not> now - lastUpdateTime (fst s) > 32 \<Longrightarrow>
     lastUpdateTime (fst (onChunk chunk now s)) = lastUpdateTime (fst s) \<and>
     generatedContent (snd (onChunk chunk now s)) = generatedContent (snd s)"
  by (simp add: onChunk_def Let_def RENDER_THROTTLE_MS_def)

lemma deliver_shown:
  "generatedContent (snd (deliver onChunk cs s)) =
     (if lastUpdate (lastUpdateTime (fst s)) cs = 0 then generatedContent (snd s)
      else contentBuffer (fst s) @ concat (map fst (take (lastUpdate (lastUpdateTime (fst s)) cs) cs)))"
proof (induction cs arbitrary: s)
  case Nil
  show ?case by simp
next
  case (Cons c cs)
  obtain t n where c: "c = (t, n)" by (cases c)
  show ?case
  proof (cases "t = []")
    case True
    then show ?thesis by (simp add: c Cons.IH)
  next
    case False
    show ?thesis
    proof (cases "n - lastUpdateTime (fst s) > 32")
      case True
      from False True onChunk_shown[OF True, of t] show ?thesis
        by (simp add: c Cons.IH onChunk_appends)
    next
      case no: False
      from False no onChunk_deferred[OF no, of t] show ?thesis
        by (simp add: c Cons.IH onChunk_appends)
    qed
  qed
qed

lemma coverImageThen_content: "generatedContent (coverImageThen cover st) = generatedContent st"
  by (simp add: coverImageThen_def split: option.splits)

text \<open>
  Claim C1 as stated fails when the stream ends with an error: the second chunk arrives
  10 ms after the first, is appended to the buffer but not shown, and the \<open>catch\<close> does
  not show it either.
\<close>

theorem handleGenerate_error_loses_tail:
  "generatedContent (handleGenerate interrupted_run None example_state) = ''Hello '' \<and>
   concat (map fst (chunks interrupted_run)) = ''Hello world'' \<and>
   generatedContent (handleGenerate interrupted_run None example_state)
     \<noteq> concat (map fst (chunks interrupted_run))"
  by (simp add: handleGenerate_def streamArticleGeneration_def interrupted_run_def
        example_state_def onChunk_def RENDER_THROTTLE_MS_def coverImageThen_def Let_def)

text \<open>
  Claim C1, amended. Every chunk is appended to the buffer when it arrives, and after the
  stream the buffer is the concatenation of all chunks, whatever their timing. When the
  stream completes, the visible text is that concatenation. When the stream ends with an
  error, the visible text is exactly what the last throttled update showed: the
  concatenation of the chunks up to and including the last one that was shown on arrival
  (\<open>lastUpdate\<close> of them, at most all), and empty when no chunk was. The chunks after
  that one are in the buffer and not in the visible text.
\<close>

theorem handleGenerate_final_text:
  assumes "topic st \<noteq> []"
  shows "(failure run = None \<longrightarrow>
            generatedContent (handleGenerate run cover st) = concat (map fst (chunks run))) \<and>
         (failure run \<noteq> None \<longrightarrow>
            generatedContent (handleGenerate run cover st)
              = concat (map fst (take (lastUpdate 0 (chunks run)) (chunks run)))) \<and>
         lastUpdate 0 (chunks run) \<le> length (chunks run) \<and>
         contentBuffer (fst (snd (streamArticleGeneration run onChunk (buf, st'))))
            = contentBuffer buf @ concat (map fst (chunks run)) \<and>
         contentBuffer (fst (onChunk chunk now (buf, st'))) = contentBuffer buf @ chunk"
proof -
  define st0 where "st0 = st \<lparr> isGenerating := True, generatedContent := [],
                        generatedImageUrls := [], selectedImageIndex := 0 \<rparr>"
  define s0 where "s0 = (\<lparr> contentBuffer = [], lastUpdateTime = 0 \<rparr>, st0)"
  define s where "s = deliver onChunk (chunks run) s0"
  have ok: "failure run = None \<Longrightarrow>
      generatedContent (handleGenerate run cover st) = contentBuffer (fst s)"
    using assms
    by (simp add: handleGenerate_def streamArticleGeneration_def Let_def coverImageThen_content
          s_def s0_def st0_def)
  have err: "failure run \<noteq> None \<Longrightarrow>
      generatedContent (handleGenerate run cover st) = generatedContent (snd s)"
    using assms
    by (auto simp add: handleGenerate_def streamArticleGeneration_def Let_def coverImageThen_content
          s_def s0_def st0_def)
  have b: "contentBuffer (fst s) = concat (map fst (chunks run))"
    by (simp add: s_def deliver_buffer s0_def)
  have v: "generatedContent (snd s) = concat (map fst (take (lastUpdate 0 (chunks run)) (chunks run)))"
    using deliver_shown[of "chunks run" s0]
    by (simp add: s_def s0_def st0_def)
  have b2: "contentBuffer (fst (snd (streamArticleGeneration run onChunk (buf, st'))))
            = contentBuffer buf @ concat (map fst (chunks run))"
    by (simp add: streamArticleGeneration_def deliver_buffer)
  from ok err b v b2 onChunk_appends[of chunk now "(buf, st')"] lastUpdate_le[of 0 "chunks run"]
  show ?thesis by simp
qed

text \<open>
  A completed stream shows everything; a stream that fails after four chunks, the last
  one 10 ms after the third, shows the first three.
\<close>

theorem handleGenerate_final_text_witness:
  "topic example_state \<noteq> [] \<and>
   generatedContent (handleGenerate (interrupted_run \<lparr> failure := None \<rparr>) None example_state)
     = ''Hello world'' \<and>
   lastUpdate 0 (chunks late_run) = 3 \<and>
   generatedContent (handleGenerate late_run None example_state) = ''Hello big world''"
proof -
  have t: "topic example_state \<noteq> []" by (simp add: example_state_def)
  have f: "failure late_run \<noteq> None" by (simp add: late_run_def)
  have l: "lastUpdate 0 (chunks late_run) = 3" by (simp add: late_run_def)
  from handleGenerate_final_text [OF t, of "interrupted_run \<lparr> failure := None \<rparr>" None]
  have a: "generatedContent (handleGenerate (interrupted_run \<lparr> failure := None \<rparr>) None example_state)
     = ''Hello world''"
    by (simp add: interrupted_run_def)
  from handleGenerate_final_text [OF t, of late_run None] f
  have "generatedContent (handleGenerate late_run None example_state)
              = concat (map fst (take (lastUpdate 0 (chunks late_run)) (chunks late_run)))"
    by blast
  then have b: "generatedContent (handleGenerate late_run None example_state) = ''Hello big world''"
    unfolding l by (simp add: late_run_def)
  from t a l b show ?thesis by blast
qed

section \<open>Tables in the preview\<close>

lemma prepend_flushList: "flushList (prepend P st) = prepend P (flushList st)"
  by (simp add: flushList_def prepend_def)

lemma prepend_flushTable: "flushTable (prepend P st) = prepend P (flushTable st)"
  by (simp add: flushTable_def prepend_def Let_def split: option.splits)

lemma prepend_push: "push b (prepend P st) = prepend P (push b st)"
  by (simp add: push_def prepend_def)

lemma prepend_fields:
  "inList (prepend P st) = inList st" "inTable (prepend P st) = inTable st"
  "listBuffer (prepend P st) = listBuffer st" "tableBuffer (prepend P st) = tableBuffer st"
  "elements (prepend P st) = P @ elements st"
  by (simp_all add: prepend_def)

lemma prepend_update:
  "(prepend P st) \<lparr> inList := a, listBuffer := b \<rparr> = prepend P (st \<lparr> inList := a, listBuffer := b \<rparr>)"
  "(prepend P st) \<lparr> inTable := c, tableBuffer := d \<rparr> = prepend P (st \<lparr> inTable := c, tableBuffer := d \<rparr>)"
  by (simp_all add: prepend_def)

lemma prepend_listOrParagraph: "listOrParagraph line (prepend P st) = prepend P (listOrParagraph line st)"
  by (simp add: listOrParagraph_def Let_def prepend_fields prepend_update prepend_flushList prepend_push)

lemma prepend_headings: "headings line (prepend P st) = prepend P (headings line st)"
  by (simp add: headings_def prepend_flushList prepend_push prepend_listOrParagraph)

lemma prepend_imageDetection: "imageDetection line (prepend P st) = prepend P (imageDetection line st)"
  by (simp add: imageDetection_def Let_def prepend_flushList prepend_push prepend_headings
        split: option.splits prod.splits)

lemma prepend_processLine: "processLine (prepend P st) line = prepend P (processLine st line)"
  by (simp add: processLine_def Let_def prepend_fields prepend_update prepend_flushList
        prepend_flushTable prepend_imageDetection)

lemma prepend_foldl: "foldl processLine (prepend P st) ls = prepend P (foldl processLine st ls)"
  by (induction ls arbitrary: st) (simp_all add: prepend_processLine)


lemma flushList_table_fields:
  "tableBuffer (flushList st) = tableBuffer st" "inTable (flushList st) = inTable st"
  by (simp_all add: flushList_def)

lemma flushList_resets: "buffers_ok st \<Longrightarrow> listBuffer (flushList st) = [] \<and> \<not> inList (flushList st)"
  by (simp add: flushList_def buffers_ok_def)

lemma flushList_elements:
  "elements (flushList st) = elements st @ (if listBuffer st = [] then [] else [UList (listBuffer st)])"
  by (simp add: flushList_def)

lemma flushList_ok: "buffers_ok st \<Longrightarrow> buffers_ok (flushList st)"
  by (simp add: flushList_def buffers_ok_def)

lemma flushTable_ok: "buffers_ok st \<Longrightarrow> buffers_ok (flushTable st)"
  by (simp add: flushTable_def buffers_ok_def Let_def split: option.splits)

lemma flushTable_resets: "buffers_ok st \<Longrightarrow> tableBuffer (flushTable st) = [] \<and> \<not> inTable (flushTable st)"
  by (simp add: flushTable_def buffers_ok_def Let_def split: option.splits)

lemma push_ok: "buffers_ok st \<Longrightarrow> buffers_ok (push b st)"
  by (simp add: push_def buffers_ok_def)

lemma push_table_fields:
  "tableBuffer (push b st) = tableBuffer st" "inTable (push b st) = inTable st"
  by (simp_all add: push_def)

lemma listOrParagraph_ok: "buffers_ok st \<Longrightarrow> buffers_ok (listOrParagraph line st)"
  by (auto simp add: listOrParagraph_def Let_def push_ok flushList_ok) (simp_all add: buffers_ok_def)

lemma listOrParagraph_table_fields:
  "tableBuffer (listOrParagraph line st) = tableBuffer st"
  "inTable (listOrParagraph line st) = inTable st"
  by (simp_all add: listOrParagraph_def Let_def push_table_fields flushList_table_fields)

lemma headings_ok: "buffers_ok st \<Longrightarrow> buffers_ok (headings line st)"
  by (simp add: headings_def push_ok flushList_ok listOrParagraph_ok)

lemma headings_table_fields:
  "tableBuffer (headings line st) = tableBuffer st" "inTable (headings line st) = inTable st"
  by (simp_all add: headings_def push_table_fields flushList_table_fields listOrParagraph_table_fields)

lemma imageDetection_ok: "buffers_ok st \<Longrightarrow> buffers_ok (imageDetection line st)"
  by (simp add: imageDetection_def Let_def push_ok flushList_ok headings_ok split: option.splits prod.splits)

lemma imageDetection_table_fields:
  "tableBuffer (imageDetection line st) = tableBuffer st"
  "inTable (imageDetection line st) = inTable st"
  by (simp_all add: imageDetection_def Let_def push_table_fields flushList_table_fields
        headings_table_fields split: option.splits prod.splits)

lemma processLine_ok: "buffers_ok st \<Longrightarrow> buffers_ok (processLine st line)"
proof (cases "isTableRow line")
  case True
  assume "buffers_ok st"
  then have "buffers_ok (flushList st)" by (rule flushList_ok)
  with True show ?thesis by (simp add: processLine_def Let_def isTableRow_def buffers_ok_def)
next
  case False
  assume "buffers_ok st"
  with False show ?thesis
    by (simp add: processLine_def Let_def isTableRow_def imageDetection_ok flushTable_ok)
qed

lemma foldl_ok: "buffers_ok st \<Longrightarrow> buffers_ok (foldl processLine st ls)"
  by (induction ls arbitrary: st) (simp_all add: processLine_ok)

lemma initial_ok: "buffers_ok initial"
  by (simp add: initial_def buffers_ok_def)

lemma processLine_other_closes_table:
  "buffers_ok st \<Longrightarrow> \<not> isTableRow line \<Longrightarrow>
     tableBuffer (processLine st line) = [] \<and> \<not> inTable (processLine st line)"
  using flushTable_resets[of st]
  by (auto simp add: processLine_def Let_def isTableRow_def imageDetection_table_fields buffers_ok_def)

lemma after_prefix:
  assumes "pre = [] \<or> \<not> isTableRow (last pre)"
  shows "buffers_ok (foldl processLine initial pre) \<and>
         tableBuffer (foldl processLine initial pre) = [] \<and>
         \<not> inTable (foldl processLine initial pre)"
proof (cases pre rule: rev_cases)
  case Nil
  then show ?thesis by (simp add: initial_ok) (simp add: initial_def)
next
  case (snoc ps l)
  with assms have l: "\<not> isTableRow l" by simp
  have ok: "buffers_ok (foldl processLine initial ps)" by (rule foldl_ok[OF initial_ok])
  from processLine_other_closes_table[OF ok l] processLine_ok[OF ok, of l] snoc
  show ?thesis by simp
qed

lemma table_rows_accumulate:
  assumes "\<forall>r \<in> set rs. isTableRow r" "rs \<noteq> []"
  shows "foldl processLine st rs
           = (flushList st) \<lparr> inTable := True, tableBuffer := tableBuffer st @ map trim rs \<rparr>"
  using assms
proof (induction rs rule: rev_induct)
  case Nil
  then show ?case by simp
next
  case (snoc r rs)
  show ?case
  proof (cases "rs = []")
    case True
    with snoc.prems show ?thesis
      by (simp add: processLine_def Let_def isTableRow_def flushList_table_fields)
  next
    case False
    with snoc have IH: "foldl processLine st rs
           = (flushList st) \<lparr> inTable := True, tableBuffer := tableBuffer st @ map trim rs \<rparr>"
      by simp
    have idem: "flushList ((flushList st) \<lparr> inTable := True, tableBuffer := tableBuffer st @ map trim rs \<rparr>)
        = (flushList st) \<lparr> inTable := True, tableBuffer := tableBuffer st @ map trim rs \<rparr>"
      by (simp add: flushList_def)
    from snoc.prems have "isTableRow r" by simp
    then have "processLine ((flushList st) \<lparr> inTable := True, tableBuffer := tableBuffer st @ map trim rs \<rparr>) r
        = (flushList st) \<lparr> inTable := True, tableBuffer := tableBuffer st @ map trim (rs @ [r]) \<rparr>"
      by (simp add: processLine_def Let_def isTableRow_def idem)
    moreover have "foldl processLine st (rs @ [r]) = processLine (foldl processLine st rs) r"
      by simp
    ultimately show ?thesis by (simp only: IH)
  qed
qed

lemma renderTable_tableBlocks:
  "(case renderTable (map trim rs) of Some t \<Rightarrow> [t] | None \<Rightarrow> []) = tableBlocks rs"
  by (cases rs) (auto simp add: renderTable_def tableBlocks_def Let_def drop_map comp_def)

lemma renderLines_Nil: "renderLines [] = []"
  by (simp add: renderLines_def initial_def flushList_def flushTable_def)

text \<open>
  Claim C5. A maximal run of table rows in the input (lines whose trimmed form starts
  with \<open>|\<close>, with no table row right before or right after) contributes exactly
  \<open>tableBlocks\<close> of the run to the preview, between the blocks of the lines before and the
  blocks of the lines after: nothing for a single row, and otherwise one table whose
  header is the first row, whose second row is left out, and whose body is the rows from
  the third on that have at least one cell; the cells of a row are its pieces between
  \<open>|\<close>, trimmed, without the empty ones. The run is closed by the first line that is
  not a table row or by the end of the input.
\<close>

theorem table_parsing:
  assumes rows: "rs \<noteq> []" "\<forall>r \<in> set rs. isTableRow r"
    and before: "pre = [] \<or> \<not> isTableRow (last pre)"
    and after: "post = [] \<or> \<not> isTableRow (hd post)"
  shows "renderLines (pre @ rs @ post) = renderLines pre @ tableBlocks rs @ renderLines post"
proof -
  define st where "st = foldl processLine initial pre"
  from after_prefix[OF before]
  have ok: "buffers_ok st" and tb: "tableBuffer st = []" and it: "\<not> inTable st"
    by (simp_all add: st_def)
  define E where "E = elements (flushList st)"
  have pre_blocks: "renderLines pre = E"
    by (simp add: renderLines_def st_def[symmetric] E_def flushTable_def flushList_table_fields tb)
  define st1 where "st1 = foldl processLine st rs"
  have st1: "st1 = (flushList st) \<lparr> inTable := True, tableBuffer := map trim rs \<rparr>"
    using table_rows_accumulate[OF rows(2) rows(1), of st] by (simp add: st1_def tb)
  have fl: "listBuffer (flushList st) = []" "\<not> inList (flushList st)"
    using flushList_resets[OF ok] by simp_all
  have closed: "flushTable st1 = prepend (E @ tableBlocks rs) initial"
    using rows(1) fl renderTable_tableBlocks[of rs]
    by (cases "renderTable (map trim rs)")
       (simp_all add: st1 flushTable_def Let_def prepend_def initial_def E_def)
  have whole: "foldl processLine initial (pre @ rs @ post) = foldl processLine st1 post"
    by (simp add: st_def st1_def)
  show ?thesis
  proof (cases post)
    case Nil
    have "flushList st1 = st1" using fl by (simp add: st1 flushList_def)
    with closed have "elements (flushTable (flushList st1)) = E @ tableBlocks rs"
      by (simp add: prepend_fields) (simp add: initial_def)
    with whole Nil have "renderLines (pre @ rs @ post) = E @ tableBlocks rs"
      by (simp add: renderLines_def)
    with Nil show ?thesis by (simp only: pre_blocks renderLines_Nil append_Nil2)
  next
    case (Cons l rest)
    with after have l: "\<not> isTableRow l" by simp
    have "inTable st1" by (simp add: st1)
    with l have "processLine st1 l = processLine (flushTable st1) l"
      using flushTable_resets[of st1]
      by (simp add: processLine_def Let_def isTableRow_def flushTable_def)
    then have "foldl processLine st1 post = prepend (E @ tableBlocks rs) (foldl processLine initial post)"
      by (simp add: Cons closed prepend_processLine prepend_foldl)
    with whole have "renderLines (pre @ rs @ post) = (E @ tableBlocks rs) @ renderLines post"
      by (simp add: renderLines_def prepend_flushList prepend_flushTable prepend_fields)
    then show ?thesis by (simp only: pre_blocks append_assoc)
  qed
qed

text \<open>The example of the specification, alone and between a heading and a paragraph.\<close>

theorem table_parsing_witness:
  "renderLines ([''# Facts''] @ facts_table @ [''done''])
     = [Heading 1 ''Facts'', Table [''A'', ''B''] [[''1'', ''2'']], Paragraph [Plain ''done'']] \<and>
   renderLines ([] @ facts_table @ []) = [Table [''A'', ''B''] [[''1'', ''2'']]] \<and>
   renderLines ([] @ [''| only |''] @ []) = [] \<and>
   MarkdownView (''| A | B |'' @ [CHR 0x0A] @ ''|---|---|'' @ [CHR 0x0A] @ ''| 1 | 2 |'')
     = Some [Table [''A'', ''B''] [[''1'', ''2'']]]"
proof -
  have rows: "facts_table \<noteq> []" "\<forall>r \<in> set facts_table. isTableRow r"
    by (simp_all add: facts_table_def isTableRow_def trim_def startsWith_def isWhiteSpace_def)
  have one: "[''| only |''] \<noteq> []" "\<forall>r \<in> set [''| only |'']. isTableRow r"
    by (simp_all add: isTableRow_def trim_def startsWith_def isWhiteSpace_def)
  have pre: "[''# Facts''] = [] \<or> \<not> isTableRow (last [''# Facts''])"
    by (simp add: isTableRow_def trim_def startsWith_def isWhiteSpace_def)
  have post: "[''done''] = [] \<or> \<not> isTableRow (hd [''done''])"
    by (simp add: isTableRow_def trim_def startsWith_def isWhiteSpace_def)
  have e: "([]::string list) = [] \<or> \<not> isTableRow (last [])"
    "([]::string list) = [] \<or> \<not> isTableRow (hd [])"
    by simp_all
  have t: "tableBlocks facts_table = [Table [''A'', ''B''] [[''1'', ''2'']]]"
    unfolding facts_table_def by code_simp
  have t1: "tableBlocks [''| only |''] = []"
    by (simp add: tableBlocks_def)
  have h: "renderLines [''# Facts''] = [Heading 1 ''Facts'']"
    by code_simp
  have d: "renderLines [''done''] = [Paragraph [Plain ''done'']]"
    by code_simp
  have n: "renderLines [] = []" by (rule renderLines_Nil)
  have m: "MarkdownView (''| A | B |'' @ [CHR 0x0A] @ ''|---|---|'' @ [CHR 0x0A] @ ''| 1 | 2 |'')
     = Some [Table [''A'', ''B''] [[''1'', ''2'']]]"
    by code_simp
  from table_parsing [OF rows pre post] table_parsing [OF rows e] table_parsing [OF one e] m
  show ?thesis by (simp only: t t1 h d n append_Nil append_Nil2 append_Cons simp_thms)
qed

section \<open>The export against the preview\<close>

text \<open>
  Claim C2 at three inputs. An image line whose pattern does not match is a paragraph in
  the preview and nothing in the export. Two list items with a blank line between them
  are two lists in the preview and one list in the export. A single table row is nothing
  in the preview and an empty table in the export.
\<close>

theorem export_diverges_from_preview:
  "MarkdownView ''![broken'' = Some [Paragraph [Plain ''![broken'']] \<and>
   htmlBody ''![broken'' = [] \<and>
   MarkdownView (''- a'' @ [CHR 0x0A, CHR 0x0A] @ ''- b'')
     = Some [UList [[Plain ''a'']], UList [[Plain ''b'']]] \<and>
   htmlBody (''- a'' @ [CHR 0x0A, CHR 0x0A] @ ''- b'') = ''<ul><li>a</li><li>b</li></ul>'' \<and>
   MarkdownView ''| A | B |'' = Some [] \<and>
   htmlBody ''| A | B |'' = ''<table></table>''"
  by code_simp

end
